theory Spec2Isabelle
  imports Main "HOL-Library.AList"
begin

section \<open>Errors, outcomes and sequenced messages\<close>

text \<open>
  A JavaScript \<^verbatim>\<open>throw new Error(msg)\<close> is the value \<open>Threw (Error msg)\<close>; a failed
  \<^verbatim>\<open>assert\<close> is \<open>Threw AssertionError\<close>, a property read on \<^verbatim>\<open>null\<close> or \<^verbatim>\<open>undefined\<close>
  is \<open>Threw TypeError\<close>. Every method of the model returns its outcome
  together with the object state at the moment it returned or threw, so that a mutation made
  before a throw stays visible.
\<close>

datatype error = Error string | AssertionError | TypeError

datatype 'a outcome = Returned 'a | Threw error

text \<open>
  \<^verbatim>\<open>MessageType\<close> is declared in another package; the members the code names are
  constructors, every other message type is \<open>OtherMessageType\<close>.
\<close>

datatype MessageType = Attach | Operation | Save | BlobUploaded | OtherMessageType string

text \<open>
  The fields of a sequenced message that the code reads or copies; \<open>msgType\<close> is the
  message's \<^verbatim>\<open>type\<close>, \<open>origin\<close> the id of its origin when it has one.
\<close>

record 'c ISequencedDocumentMessage =
  clientId :: string
  clientSequenceNumber :: int
  contents :: 'c
  minimumSequenceNumber :: int
  origin :: "string option"
  referenceSequenceNumber :: int
  sequenceNumber :: int
  timestamp :: int
  traces :: "string list"
  msgType :: MessageType

section \<open>Cell (packages/runtime/cell/src/cell.ts)\<close>

text \<open>
  The cell holds \<^verbatim>\<open>any\<close>: \<open>Undefined\<close>, a plain JSON value (kept as its text), or a shared
  object (kept as its id).
\<close>

datatype jsvalue = Undefined | PlainValue string | SharedObject string

record ICellValue =
  cvType :: string
  cvValue :: jsvalue

record ICellOperation =
  opType :: string
  opValue :: "ICellValue option"

datatype cell_effect =
    Emitted string "jsvalue list"
  | AttachedValue string
  | SubmittedLocalMessage ICellOperation

record Cell =
  data :: jsvalue
  pendingClientSequenceNumber :: int
  effects :: "cell_effect list"

definition newCell :: Cell where
  "newCell = \<lparr> data = Undefined, pendingClientSequenceNumber = - 1, effects = [] \<rparr>"

definition setCore :: "jsvalue \<Rightarrow> Cell \<Rightarrow> Cell" where
  "setCore v c = c\<lparr> data := v, effects := effects c @ [Emitted ''valueChanged'' [v]] \<rparr>"

definition deleteCore :: "Cell \<Rightarrow> Cell" where
  "deleteCore c = c\<lparr> data := Undefined, effects := effects c @ [Emitted ''delete'' []] \<rparr>"

text \<open>
  \<^verbatim>\<open>submitLocalMessage\<close> belongs to the SharedObject base class of another package: the
  client sequence number it returns is the parameter \<open>csn\<close>.
\<close>

definition submitCellMessage :: "int \<Rightarrow> ICellOperation \<Rightarrow> Cell \<Rightarrow> Cell" where
  "submitCellMessage csn op c =
     c\<lparr> pendingClientSequenceNumber := csn,
        effects := effects c @ [SubmittedLocalMessage op] \<rparr>"

text \<open>
  \<^verbatim>\<open>Cell.set\<close>; \<open>isLocal\<close> is the answer of the base class's \<^verbatim>\<open>isLocal()\<close>.
\<close>

definition cell_set :: "bool \<Rightarrow> int \<Rightarrow> jsvalue \<Rightarrow> Cell \<Rightarrow> Cell" where
  "cell_set isLocal csn v c =
     (let (operationValue, c1) =
            (case v of
               SharedObject i \<Rightarrow>
                 (\<lparr> cvType = ''Shared'', cvValue = PlainValue i \<rparr>,
                  if \<not> isLocal then c\<lparr> effects := effects c @ [AttachedValue i] \<rparr> else c)
             | _ \<Rightarrow> (\<lparr> cvType = ''Plain'', cvValue = v \<rparr>, c));
          op = \<lparr> opType = ''setCell'', opValue = Some operationValue \<rparr>
      in submitCellMessage csn op (setCore v c1))"

definition cell_delete :: "int \<Rightarrow> Cell \<Rightarrow> Cell" where
  "cell_delete csn c =
     (let op = \<lparr> opType = ''deleteCell'', opValue = None \<rparr>
      in submitCellMessage csn op (deleteCore c))"

definition cell_get :: "Cell \<Rightarrow> jsvalue" where
  "cell_get c = data c"

definition cell_empty :: "Cell \<Rightarrow> bool" where
  "cell_empty c = (if data c = Undefined then True else False)"

text \<open>
  \<^verbatim>\<open>prepareCore\<close>: the context handed to \<^verbatim>\<open>processCore\<close>. \<^verbatim>\<open>runtime.getChannel(id)\<close>
  resolves to the shared object with that id; a \<open>setCell\<close> operation that carries no value
  fails on the read of its type.
\<close>

definition prepareCore :: "ICellOperation ISequencedDocumentMessage \<Rightarrow> bool \<Rightarrow> jsvalue outcome" where
  "prepareCore message local =
     (if msgType message = Operation \<and> \<not> local then
        (let op = contents message in
         if opType op = ''setCell'' then
           (case opValue op of
              None \<Rightarrow> Threw TypeError
            | Some cv \<Rightarrow>
                (if cvType cv = ''Shared''
                 then (case cvValue cv of PlainValue i \<Rightarrow> Returned (SharedObject i) | w \<Rightarrow> Returned w)
                 else Returned (cvValue cv)))
         else Returned Undefined)
      else Returned Undefined)"

definition processCore ::
  "ICellOperation ISequencedDocumentMessage \<Rightarrow> bool \<Rightarrow> jsvalue \<Rightarrow> Cell \<Rightarrow> unit outcome \<times> Cell" where
  "processCore message local context c =
     (if pendingClientSequenceNumber c \<noteq> - 1 then
        (if local \<and> clientSequenceNumber message = pendingClientSequenceNumber c
         then (Returned (), c\<lparr> pendingClientSequenceNumber := - 1 \<rparr>)
         else (Returned (), c))
      else if msgType message = Operation \<and> \<not> local then
        (let op = contents message in
         if opType op = ''setCell'' then (Returned (), setCore context c)
         else if opType op = ''deleteCell'' then (Returned (), deleteCore c)
         else (Threw (Error ''Unknown operation''), c))
      else (Returned (), c))"

section \<open>Counter (packages/runtime/map/src/counter.ts)\<close>

text \<open>
  JavaScript numbers are taken as integers. The log records what the counter hands to its
  op emitter and to its own listeners.
\<close>

datatype counter_effect =
    OpEmitted string int int
  | Incremented int int

record Counter =
  counter_value :: int
  counter_effects :: "counter_effect list"

definition increment :: "int \<Rightarrow> bool \<Rightarrow> Counter \<Rightarrow> Counter" where
  "increment v submit k =
     (let previousValue = counter_value k;
          k1 = k\<lparr> counter_value := counter_value k + v \<rparr>;
          k2 = (if submit
                then k1\<lparr> counter_effects := counter_effects k1 @ [OpEmitted ''increment'' previousValue v] \<rparr>
                else k1)
      in k2\<lparr> counter_effects := counter_effects k2 @ [Incremented v (counter_value k2)] \<rparr>)"

definition counter_process :: "int \<Rightarrow> bool \<Rightarrow> Counter \<Rightarrow> Counter" where
  "counter_process params local k = (if local then k else increment params False k)"

section \<open>ComponentRuntime (packages/runtime/component-runtime/src/componentRuntime.ts)\<close>

datatype ConnectionState = Disconnected | Connecting | Connected

text \<open>
  A promise-backed \<^verbatim>\<open>Deferred\<close>: the first \<^verbatim>\<open>resolve\<close> settles it, a later one changes
  nothing.
\<close>

datatype 'a Deferred = Unresolved | Resolved 'a

definition resolve :: "'a \<Rightarrow> 'a Deferred \<Rightarrow> 'a Deferred" where
  "resolve v d = (case d of Unresolved \<Rightarrow> Resolved v | Resolved w \<Rightarrow> Resolved w)"

text \<open>
  \<^verbatim>\<open>IChannel\<close> is an interface of another package: a channel is what the runtime reads of
  it (its id, its type, \<^verbatim>\<open>isRegistered()\<close>, \<^verbatim>\<open>snapshotFormatVersion\<close>, \<^verbatim>\<open>snapshot()\<close>).
\<close>

record IChannel =
  channel_id :: string
  channel_type :: string
  channel_isRegistered :: bool
  channel_snapshotFormatVersion :: string
  channel_snapshot :: string

text \<open>
  A \<^verbatim>\<open>ChannelDeltaConnection\<close> and a storage service are named by the channel id they were
  built for; \<open>None\<close> is \<^verbatim>\<open>null\<close>. Two channels are the same object when their fields agree.
\<close>

record IChannelState =
  cs_object :: IChannel
  cs_storage :: "string option"
  cs_connection :: "string option"
  cs_baseId :: "string option"

record IObjectServices =
  deltaConnection :: string
  objectStorage :: string
  services_baseId :: "string option"

record IAttachMessage =
  attach_id :: string
  attach_snapshot :: string
  attach_type :: string

text \<open>
  The \<^verbatim>\<open>contents\<close> a runtime message or a submitted message carries, and the \<^verbatim>\<open>context\<close>
  that \<^verbatim>\<open>prepare\<close> hands to \<^verbatim>\<open>process\<close>; both are \<^verbatim>\<open>any\<close> in the source.
\<close>

datatype rt_contents =
    Envelope string string
  | AttachContents IAttachMessage
  | OtherContents string

datatype rt_context =
    NoContext
  | ChannelStateContext IChannelState
  | OpContext string

record IResponse =
  status :: int
  mimeType :: string
  response_value :: string

datatype runtime_effect =
    EmitOp "rt_contents ISequencedDocumentMessage" "IChannel option"
  | EmitSignal string bool
  | ContextSubmitMessage MessageType rt_contents
  | ContextSubmitSignal string string
  | ContextAttach
  | ConnectionSetConnectionState string ConnectionState
  | ConnectionPrepare string "string ISequencedDocumentMessage" bool
  | ConnectionProcess string "string ISequencedDocumentMessage" bool rt_context
  | CreateBlob string
  | ChannelConnect string IObjectServices
  | RaiseConnectedEvent ConnectionState string
  | SnapshotFn string
  | CloseFn
  | HostRequest string
  | HandlerRequest string
  | GetBlob string
  | Debug string

record ISharedObjectExtension =
  ext_snapshotFormatVersion :: string
  ext_create :: "string \<Rightarrow> IChannel"
  ext_load :: "string \<Rightarrow> int \<Rightarrow> IObjectServices \<Rightarrow> string \<Rightarrow> IChannel outcome"

text \<open>
  What the runtime's collaborators answer: the extension registry, what the component
  context's \<^verbatim>\<open>submitMessage\<close> returns or throws, what a channel connection returns from
  \<^verbatim>\<open>prepare\<close> and whether it throws while it processes a message, the blob the blob manager
  creates for a file, and the responses of the host runtime and of a registered request
  handler.
\<close>

record Collaborators =
  registry :: "string \<Rightarrow> ISharedObjectExtension option"
  submitMessageResult :: "MessageType \<Rightarrow> rt_contents \<Rightarrow> int outcome"
  connectionPrepare :: "string \<Rightarrow> string ISequencedDocumentMessage \<Rightarrow> bool \<Rightarrow> rt_context outcome"
  connectionProcess :: "string \<Rightarrow> string ISequencedDocumentMessage \<Rightarrow> bool \<Rightarrow> rt_context \<Rightarrow> error option"
  createBlob :: "string \<Rightarrow> string"
  hostRequest :: "string \<Rightarrow> IResponse"
  handlerRequest :: "string \<Rightarrow> string \<Rightarrow> IResponse"

record ComponentRuntime =
  documentId :: string
  channels :: "(string \<times> IChannelState) list"
  channelsDeferred :: "(string \<times> IChannel Deferred) list"
  closed :: bool
  pendingAttach :: "(string \<times> IAttachMessage) list"
  requestHandler :: "string option"
  isLocal :: bool
  deferredAttached :: "unit Deferred"
  attachChannelQueue :: "(string \<times> IChannel) list"
  log :: "runtime_effect list"

text \<open>The constructor, for a document id and a component that is \<open>existing\<close> or not.\<close>

definition newComponentRuntime :: "string \<Rightarrow> bool \<Rightarrow> ComponentRuntime" where
  "newComponentRuntime docId existing =
     \<lparr> documentId = docId, channels = [], channelsDeferred = [], closed = False, pendingAttach = [],
       requestHandler = None, isLocal = (\<not> existing),
       deferredAttached = (if existing then Resolved () else Unresolved),
       attachChannelQueue = [], log = [] \<rparr>"

definition has :: "'k \<Rightarrow> ('k \<times> 'v) list \<Rightarrow> bool" where
  "has k m = (map_of m k \<noteq> None)"

definition emit :: "runtime_effect \<Rightarrow> ComponentRuntime \<Rightarrow> ComponentRuntime" where
  "emit e rt = rt\<lparr> log := log rt @ [e] \<rparr>"

definition closedError :: error where
  "closedError = Error ''Runtime is closed''"

definition verifyNotClosed :: "ComponentRuntime \<Rightarrow> error option" where
  "verifyNotClosed rt = (if closed rt then Some closedError else None)"

definition request :: "Collaborators \<Rightarrow> string \<Rightarrow> ComponentRuntime \<Rightarrow> IResponse Deferred outcome \<times> ComponentRuntime" where
  "request env url rt =
     (if url = ''/_scheduler'' then (Returned (Resolved (hostRequest env url)), emit (HostRequest url) rt)
      else
        (let i = drop 1 url in
         if has i (channelsDeferred rt) then
           (case map_of (channelsDeferred rt) i of
              Some (Resolved ch) \<Rightarrow>
                (Returned (Resolved \<lparr> status = 200, mimeType = ''prague/dataType'',
                                      response_value = channel_id ch \<rparr>), rt)
            | _ \<Rightarrow> (Returned Unresolved, rt))
         else
           (case requestHandler rt of
              None \<Rightarrow> (Returned (Resolved \<lparr> status = 404, mimeType = ''text/plain'',
                                           response_value = url @ '' not found'' \<rparr>), rt)
            | Some h \<Rightarrow> (Returned (Resolved (handlerRequest env h url)), emit (HandlerRequest url) rt))))"

definition registerRequestHandler :: "string \<Rightarrow> ComponentRuntime \<Rightarrow> unit outcome \<times> ComponentRuntime" where
  "registerRequestHandler handler rt = (Returned (), rt\<lparr> requestHandler := Some handler \<rparr>)"

definition getChannel :: "string \<Rightarrow> ComponentRuntime \<Rightarrow> IChannel Deferred outcome \<times> ComponentRuntime" where
  "getChannel i rt =
     (case verifyNotClosed rt of
        Some e \<Rightarrow> (Threw e, rt)
      | None \<Rightarrow>
          (case map_of (channelsDeferred rt) i of
             None \<Rightarrow> (Returned Unresolved,
                       rt\<lparr> channelsDeferred := AList.update i Unresolved (channelsDeferred rt) \<rparr>)
           | Some d \<Rightarrow> (Returned d, rt)))"

definition resolveChannel :: "string \<Rightarrow> IChannel \<Rightarrow> ComponentRuntime \<Rightarrow> ComponentRuntime" where
  "resolveChannel i ch rt =
     (case map_of (channelsDeferred rt) i of
        Some d \<Rightarrow> rt\<lparr> channelsDeferred := AList.update i (resolve ch d) (channelsDeferred rt) \<rparr>
      | None \<Rightarrow> rt\<lparr> channelsDeferred := AList.update i (Resolved ch) (channelsDeferred rt) \<rparr>)"

definition createChannel :: "Collaborators \<Rightarrow> string \<Rightarrow> string \<Rightarrow> ComponentRuntime \<Rightarrow> IChannel outcome \<times> ComponentRuntime" where
  "createChannel env i ty rt =
     (case verifyNotClosed rt of
        Some e \<Rightarrow> (Threw e, rt)
      | None \<Rightarrow>
          (case registry env ty of
             None \<Rightarrow> (Threw (Error (''Channel Extension '' @ ty @ '' not registered'')), rt)
           | Some extension \<Rightarrow>
               (let channel = ext_create extension i;
                    rt1 = rt\<lparr> channels := AList.update i
                                 \<lparr> cs_object = channel, cs_storage = None,
                                   cs_connection = None, cs_baseId = None \<rparr> (channels rt) \<rparr>
                in (Returned channel, resolveChannel i channel rt1))))"

definition submit :: "Collaborators \<Rightarrow> MessageType \<Rightarrow> rt_contents \<Rightarrow> ComponentRuntime \<Rightarrow> int outcome \<times> ComponentRuntime" where
  "submit env ty content rt =
     (case verifyNotClosed rt of
        Some e \<Rightarrow> (Threw e, rt)
      | None \<Rightarrow> (submitMessageResult env ty content, emit (ContextSubmitMessage ty content) rt))"

definition getObjectServices :: "string \<Rightarrow> string option \<Rightarrow> IObjectServices" where
  "getObjectServices i treeId =
     \<lparr> deltaConnection = i, objectStorage = i, services_baseId = treeId \<rparr>"

definition getAndAttachChannelServices :: "IChannel \<Rightarrow> ComponentRuntime \<Rightarrow> IObjectServices outcome \<times> ComponentRuntime" where
  "getAndAttachChannelServices channel rt =
     (let services = getObjectServices (channel_id channel) None in
      case map_of (channels rt) (channel_id channel) of
        None \<Rightarrow> (Threw TypeError, rt)
      | Some entry \<Rightarrow>
          (if cs_object entry \<noteq> channel then (Threw AssertionError, rt)
           else (Returned services,
                 rt\<lparr> channels := AList.update (channel_id channel)
                        (entry\<lparr> cs_connection := Some (deltaConnection services),
                                cs_storage := Some (objectStorage services) \<rparr>) (channels rt) \<rparr>)))"

definition attachChannel :: "Collaborators \<Rightarrow> IChannel \<Rightarrow> ComponentRuntime \<Rightarrow> IObjectServices outcome \<times> ComponentRuntime" where
  "attachChannel env channel rt =
     (case verifyNotClosed rt of
        Some e \<Rightarrow> (Threw e, rt)
      | None \<Rightarrow>
          (let message = \<lparr> attach_id = channel_id channel, attach_snapshot = channel_snapshot channel,
                           attach_type = channel_type channel \<rparr>;
               rt1 = rt\<lparr> pendingAttach := AList.update (channel_id channel) message (pendingAttach rt) \<rparr>
           in (case submit env Attach (AttachContents message) rt1 of
                 (Threw e, rt2) \<Rightarrow> (Threw e, rt2)
               | (Returned _, rt2) \<Rightarrow> getAndAttachChannelServices channel rt2)))"

definition registerChannel :: "Collaborators \<Rightarrow> IChannel \<Rightarrow> ComponentRuntime \<Rightarrow> unit outcome \<times> ComponentRuntime" where
  "registerChannel env channel rt =
     (if \<not> isLocal rt then
        (case attachChannel env channel rt of
           (Threw e, rt1) \<Rightarrow> (Threw e, rt1)
         | (Returned services, rt1) \<Rightarrow> (Returned (), emit (ChannelConnect (channel_id channel) services) rt1))
      else if \<not> has (channel_id channel) (attachChannelQueue rt) then
        (Returned (), rt\<lparr> attachChannelQueue := AList.update (channel_id channel) channel (attachChannelQueue rt) \<rparr>)
      else (Returned (), rt))"

fun attachQueued :: "IChannel list \<Rightarrow> ComponentRuntime \<Rightarrow> unit outcome \<times> ComponentRuntime" where
  "attachQueued [] rt = (Returned (), rt)"
| "attachQueued (channel # rest) rt =
     (case getAndAttachChannelServices channel rt of
        (Threw e, rt1) \<Rightarrow> (Threw e, rt1)
      | (Returned services, rt1) \<Rightarrow>
          attachQueued rest (emit (ChannelConnect (channel_id channel) services) rt1))"

definition attach :: "ComponentRuntime \<Rightarrow> unit outcome \<times> ComponentRuntime" where
  "attach rt =
     (if \<not> isLocal rt then (Returned (), rt)
      else
        (case attachQueued (map snd (attachChannelQueue rt)) (emit ContextAttach rt) of
           (Threw e, rt1) \<Rightarrow> (Threw e, rt1)
         | (Returned _, rt1) \<Rightarrow>
             (Returned (), rt1\<lparr> isLocal := False,
                                deferredAttached := resolve () (deferredAttached rt1),
                                attachChannelQueue := [] \<rparr>)))"

fun resendPendingAttach :: "Collaborators \<Rightarrow> IAttachMessage list \<Rightarrow> ComponentRuntime \<Rightarrow> unit outcome \<times> ComponentRuntime" where
  "resendPendingAttach env [] rt = (Returned (), rt)"
| "resendPendingAttach env (message # rest) rt =
     (case submit env Attach (AttachContents message) rt of
        (Threw e, rt1) \<Rightarrow> (Threw e, rt1)
      | (Returned _, rt1) \<Rightarrow> resendPendingAttach env rest rt1)"

fun setConnectionStates :: "ConnectionState \<Rightarrow> IChannelState list \<Rightarrow> ComponentRuntime \<Rightarrow> ComponentRuntime" where
  "setConnectionStates v [] rt = rt"
| "setConnectionStates v (object # rest) rt =
     setConnectionStates v rest
       (case cs_connection object of
          Some c \<Rightarrow> emit (ConnectionSetConnectionState c v) rt
        | None \<Rightarrow> rt)"

definition changeConnectionState :: "Collaborators \<Rightarrow> ConnectionState \<Rightarrow> string \<Rightarrow> ComponentRuntime \<Rightarrow> unit outcome \<times> ComponentRuntime" where
  "changeConnectionState env v cid rt =
     (case verifyNotClosed rt of
        Some e \<Rightarrow> (Threw e, rt)
      | None \<Rightarrow>
          (case (if v = Connected then resendPendingAttach env (map snd (pendingAttach rt)) rt
                 else (Returned (), rt)) of
             (Threw e, rt1) \<Rightarrow> (Threw e, rt1)
           | (Returned _, rt1) \<Rightarrow>
               (Returned (),
                emit (RaiseConnectedEvent v cid) (setConnectionStates v (map snd (channels rt1)) rt1))))"

definition getQuorum :: "ComponentRuntime \<Rightarrow> unit outcome \<times> ComponentRuntime" where
  "getQuorum rt = (case verifyNotClosed rt of Some e \<Rightarrow> (Threw e, rt) | None \<Rightarrow> (Returned (), rt))"

definition snapshot :: "string \<Rightarrow> ComponentRuntime \<Rightarrow> unit outcome \<times> ComponentRuntime" where
  "snapshot message rt =
     (case verifyNotClosed rt of Some e \<Rightarrow> (Threw e, rt) | None \<Rightarrow> (Returned (), emit (SnapshotFn message) rt))"

definition save :: "Collaborators \<Rightarrow> string \<Rightarrow> ComponentRuntime \<Rightarrow> unit outcome \<times> ComponentRuntime" where
  "save env tag rt =
     (case verifyNotClosed rt of
        Some e \<Rightarrow> (Threw e, rt)
      | None \<Rightarrow>
          (case submit env Save (OtherContents tag) rt of
             (Threw e, rt1) \<Rightarrow> (Threw e, rt1)
           | (Returned _, rt1) \<Rightarrow> (Returned (), rt1)))"

definition getBlob :: "string \<Rightarrow> ComponentRuntime \<Rightarrow> unit outcome \<times> ComponentRuntime" where
  "getBlob blobId rt =
     (case verifyNotClosed rt of Some e \<Rightarrow> (Threw e, rt) | None \<Rightarrow> (Returned (), emit (GetBlob blobId) rt))"

text \<open>
  \<^verbatim>\<open>uploadBlob\<close> is asynchronous: a throw is the rejection of its promise. A file is named
  by a string, and so is the blob made for it.
\<close>

definition uploadBlob :: "Collaborators \<Rightarrow> string \<Rightarrow> ComponentRuntime \<Rightarrow> string outcome \<times> ComponentRuntime" where
  "uploadBlob env file rt =
     (case verifyNotClosed rt of
        Some e \<Rightarrow> (Threw e, rt)
      | None \<Rightarrow>
          (let blob = createBlob env file in
           case submit env BlobUploaded (OtherContents blob) (emit (CreateBlob file) rt) of
             (Threw e, rt1) \<Rightarrow> (Threw e, rt1)
           | (Returned _, rt1) \<Rightarrow> (Returned blob, rt1)))"

text \<open>
  An entry of \<^verbatim>\<open>snapshotInternal\<close>: the channel's path, its snapshot, the \<^verbatim>\<open>.attributes\<close>
  blob (format version and type) and the tree id, which is the base id when that is set and
  not the empty string.
\<close>

record ITreeEntry =
  entry_path :: string
  entry_snapshot :: string
  entry_attributes :: "string \<times> string"
  entry_id :: "string option"

definition snapshotInternal :: "ComponentRuntime \<Rightarrow> ITreeEntry list" where
  "snapshotInternal rt =
     map (\<lambda>(objectId, object).
            \<lparr> entry_path = objectId,
              entry_snapshot = channel_snapshot (cs_object object),
              entry_attributes = (channel_snapshotFormatVersion (cs_object object),
                                  channel_type (cs_object object)),
              entry_id = (case cs_baseId object of
                            None \<Rightarrow> None
                          | Some b \<Rightarrow> if b = [] then None else Some b) \<rparr>)
         (filter (\<lambda>(objectId, object). channel_isRegistered (cs_object object)) (channels rt))"

definition stop :: "ComponentRuntime \<Rightarrow> ITreeEntry list outcome \<times> ComponentRuntime" where
  "stop rt =
     (case verifyNotClosed rt of
        Some e \<Rightarrow> (Threw e, rt)
      | None \<Rightarrow> (let rt1 = rt\<lparr> closed := True \<rparr> in (Returned (snapshotInternal rt1), rt1)))"

definition close :: "ComponentRuntime \<Rightarrow> unit outcome \<times> ComponentRuntime" where
  "close rt = (Returned (), emit CloseFn rt)"

definition submitMessage :: "Collaborators \<Rightarrow> MessageType \<Rightarrow> rt_contents \<Rightarrow> ComponentRuntime \<Rightarrow> unit outcome \<times> ComponentRuntime" where
  "submitMessage env ty content rt =
     (case submit env ty content rt of
        (Threw e, rt1) \<Rightarrow> (Threw e, rt1)
      | (Returned _, rt1) \<Rightarrow> (Returned (), rt1))"

definition submitSignal :: "string \<Rightarrow> string \<Rightarrow> ComponentRuntime \<Rightarrow> unit outcome \<times> ComponentRuntime" where
  "submitSignal ty content rt =
     (case verifyNotClosed rt of
        Some e \<Rightarrow> (Threw e, rt)
      | None \<Rightarrow> (Returned (), emit (ContextSubmitSignal ty content) rt))"

definition processSignal :: "string \<Rightarrow> bool \<Rightarrow> ComponentRuntime \<Rightarrow> unit outcome \<times> ComponentRuntime" where
  "processSignal message local rt = (Returned (), emit (EmitSignal message local) rt)"

definition transformed :: "rt_contents ISequencedDocumentMessage \<Rightarrow> string \<Rightarrow> string ISequencedDocumentMessage" where
  "transformed message inner =
     \<lparr> clientId = clientId message,
       clientSequenceNumber = clientSequenceNumber message,
       contents = inner,
       minimumSequenceNumber = minimumSequenceNumber message,
       origin = origin message,
       referenceSequenceNumber = referenceSequenceNumber message,
       sequenceNumber = sequenceNumber message,
       timestamp = timestamp message,
       traces = traces message,
       msgType = msgType message \<rparr>"

definition processOp ::
  "Collaborators \<Rightarrow> rt_contents ISequencedDocumentMessage \<Rightarrow> bool \<Rightarrow> rt_context \<Rightarrow> ComponentRuntime
     \<Rightarrow> IChannel outcome \<times> ComponentRuntime" where
  "processOp env message local context rt =
     (case verifyNotClosed rt of
        Some e \<Rightarrow> (Threw e, rt)
      | None \<Rightarrow>
          (case contents message of
             Envelope address inner \<Rightarrow>
               (case map_of (channels rt) address of
                  None \<Rightarrow> (Threw AssertionError, rt)
                | Some objectDetails \<Rightarrow>
                    (let rt1 = rt\<lparr> channels := AList.update address
                                      (objectDetails\<lparr> cs_baseId := None \<rparr>) (channels rt) \<rparr>
                     in (case cs_connection objectDetails of
                           None \<Rightarrow> (Threw TypeError, rt1)
                         | Some c \<Rightarrow>
                             (let rt2 = emit (ConnectionProcess c (transformed message inner) local context) rt1
                              in (case connectionProcess env c (transformed message inner) local context of
                                    Some e \<Rightarrow> (Threw e, rt2)
                                  | None \<Rightarrow> (Returned (cs_object objectDetails), rt2))))))
           | _ \<Rightarrow> (Threw AssertionError, rt)))"

definition processAttach ::
  "rt_contents ISequencedDocumentMessage \<Rightarrow> bool \<Rightarrow> rt_context \<Rightarrow> ComponentRuntime
     \<Rightarrow> IChannel outcome \<times> ComponentRuntime" where
  "processAttach message local context rt =
     (case verifyNotClosed rt of
        Some e \<Rightarrow> (Threw e, rt)
      | None \<Rightarrow>
          (let attachId = (case contents message of AttachContents am \<Rightarrow> Some (attach_id am) | _ \<Rightarrow> None);
               step =
                 (if local then
                    (case attachId of
                       None \<Rightarrow> (Threw AssertionError, rt)
                     | Some i \<Rightarrow>
                         (if has i (pendingAttach rt)
                          then (Returned (), rt\<lparr> pendingAttach := AList.delete i (pendingAttach rt) \<rparr>)
                          else (Threw AssertionError, rt)))
                  else
                    (case context of
                       ChannelStateContext channelState \<Rightarrow>
                         (Returned (),
                          resolveChannel (channel_id (cs_object channelState)) (cs_object channelState)
                            (rt\<lparr> channels := AList.update (channel_id (cs_object channelState))
                                                channelState (channels rt) \<rparr>))
                     | _ \<Rightarrow> (Threw TypeError, rt)))
           in (case step of
                 (Threw e, rt1) \<Rightarrow> (Threw e, rt1)
               | (Returned _, rt1) \<Rightarrow>
                   (case attachId of
                      None \<Rightarrow> (Threw TypeError, rt1)
                    | Some i \<Rightarrow>
                        (case map_of (channels rt1) i of
                           None \<Rightarrow> (Threw TypeError, rt1)
                         | Some entry \<Rightarrow> (Returned (cs_object entry), rt1))))))"

definition process ::
  "Collaborators \<Rightarrow> rt_contents ISequencedDocumentMessage \<Rightarrow> bool \<Rightarrow> rt_context \<Rightarrow> ComponentRuntime
     \<Rightarrow> unit outcome \<times> ComponentRuntime" where
  "process env message local context rt =
     (let r = (case msgType message of
                 Attach \<Rightarrow>
                   (case processAttach message local context rt of
                      (Threw e, rt1) \<Rightarrow> (Threw e, rt1)
                    | (Returned ch, rt1) \<Rightarrow> (Returned (Some ch), rt1))
               | Operation \<Rightarrow>
                   (case processOp env message local context rt of
                      (Threw e, rt1) \<Rightarrow> (Threw e, rt1)
                    | (Returned ch, rt1) \<Rightarrow> (Returned (Some ch), rt1))
               | _ \<Rightarrow> (Returned None, rt))
      in (case r of
            (Threw e, rt1) \<Rightarrow> (Threw e, rt1)
          | (Returned target, rt1) \<Rightarrow> (Returned (), emit (EmitOp message target) rt1)))"

text \<open>The line that \<^verbatim>\<open>loadChannel\<close> hands to \<^verbatim>\<open>debug\<close> on a version mismatch.\<close>

definition versionMismatchMessage :: "string \<Rightarrow> string \<Rightarrow> string \<Rightarrow> string" where
  "versionMismatchMessage ty v w =
     ''Snapshot version mismatch. Type: '' @ ty @ '', ''
       @ ''Snapshot format version: '' @ v @ '', ''
       @ ''client format version: '' @ w"

definition loadChannel ::
  "Collaborators \<Rightarrow> string \<Rightarrow> string \<Rightarrow> string option \<Rightarrow> int \<Rightarrow> IObjectServices \<Rightarrow> string \<Rightarrow> ComponentRuntime
     \<Rightarrow> IChannelState outcome \<times> ComponentRuntime" where
  "loadChannel env i ty snapshotFormatVersion minSequenceNumber services originBranch rt =
     (case registry env ty of
        None \<Rightarrow> (Threw (Error (''Channel Extension '' @ ty @ '' not registered'')), rt)
      | Some extension \<Rightarrow>
          (let rt1 =
                 (case snapshotFormatVersion of
                    None \<Rightarrow> rt
                  | Some v \<Rightarrow>
                      (if v \<noteq> ext_snapshotFormatVersion extension
                       then emit (Debug (versionMismatchMessage ty v (ext_snapshotFormatVersion extension))) rt
                       else rt))
           in (case ext_load extension i minSequenceNumber services originBranch of
                 Threw e \<Rightarrow> (Threw e, rt1)
               | Returned v \<Rightarrow>
                   (Returned \<lparr> cs_object = v, cs_storage = Some (objectStorage services),
                               cs_connection = Some (deltaConnection services),
                               cs_baseId = services_baseId services \<rparr>, rt1))))"

text \<open>
  \<^verbatim>\<open>prepare\<close> and its two branches; they are asynchronous, a throw is the rejection of the
  promise. An attach message that is not one has no type, and no extension is registered
  for a missing type.
\<close>

definition prepareOp ::
  "Collaborators \<Rightarrow> rt_contents ISequencedDocumentMessage \<Rightarrow> bool \<Rightarrow> ComponentRuntime
     \<Rightarrow> rt_context outcome \<times> ComponentRuntime" where
  "prepareOp env message local rt =
     (case verifyNotClosed rt of
        Some e \<Rightarrow> (Threw e, rt)
      | None \<Rightarrow>
          (case contents message of
             Envelope address inner \<Rightarrow>
               (case map_of (channels rt) address of
                  None \<Rightarrow> (Threw AssertionError, rt)
                | Some objectDetails \<Rightarrow>
                    (case cs_connection objectDetails of
                       None \<Rightarrow> (Threw TypeError, rt)
                     | Some c \<Rightarrow>
                         (connectionPrepare env c (transformed message inner) local,
                          emit (ConnectionPrepare c (transformed message inner) local) rt)))
           | _ \<Rightarrow> (Threw AssertionError, rt)))"

definition prepareAttach ::
  "Collaborators \<Rightarrow> rt_contents ISequencedDocumentMessage \<Rightarrow> bool \<Rightarrow> ComponentRuntime
     \<Rightarrow> rt_context outcome \<times> ComponentRuntime" where
  "prepareAttach env message local rt =
     (case verifyNotClosed rt of
        Some e \<Rightarrow> (Threw e, rt)
      | None \<Rightarrow>
          (if local then (Returned NoContext, rt)
           else
             (case contents message of
                AttachContents attachMessage \<Rightarrow>
                  (let services = \<lparr> deltaConnection = attach_id attachMessage,
                                    objectStorage = attach_id attachMessage,
                                    services_baseId = None \<rparr>;
                       originBranch = (case origin message of Some b \<Rightarrow> b | None \<Rightarrow> documentId rt)
                   in (case loadChannel env (attach_id attachMessage) (attach_type attachMessage) None
                              (minimumSequenceNumber message) services originBranch rt of
                         (Threw e, rt1) \<Rightarrow> (Threw e, rt1)
                       | (Returned v, rt1) \<Rightarrow> (Returned (ChannelStateContext v), rt1)))
              | _ \<Rightarrow> (Threw (Error ''Channel Extension undefined not registered''), rt))))"

definition prepare ::
  "Collaborators \<Rightarrow> rt_contents ISequencedDocumentMessage \<Rightarrow> bool \<Rightarrow> ComponentRuntime
     \<Rightarrow> rt_context outcome \<times> ComponentRuntime" where
  "prepare env message local rt =
     (case msgType message of
        Attach \<Rightarrow> prepareAttach env message local rt
      | Operation \<Rightarrow> prepareOp env message local rt
      | _ \<Rightarrow> (Returned NoContext, rt))"

section \<open>Segment sequence and Snapshot\<close>

text \<open>
  Modelled from the spec: the merge tree (the spec's SegmentTree) and the \<^verbatim>\<open>Snapshot\<close>
  class are not among the repository's files under src/, which hold only their test
  (merge-tree/src/test/snapshot.spec.ts). The definitions of this section follow the
  specification's data model (sections 3 and 4.4) and its length invariant (section 8).

  A segment is a text run or a marker, with a property map, the sequence number at which it
  became visible (the universal sentinel for content that predates collaboration, or the
  pending marker of an unacknowledged local insert) and the sequence number at which it
  was removed, if it was. The tree is taken as the ordered sequence of its segments under
  traversal, together with the minimum sequence number of its collaboration window.
\<close>

type_synonym PropertySet = "(string \<times> string) list"

datatype SegmentContent = TextSegment string | Marker

datatype SeqNum = UniversalSequenceNumber | Sequenced nat | UnassignedSequenceNumber

record Segment =
  seg_content :: SegmentContent
  seg_properties :: PropertySet
  seg_sequenceNumber :: SeqNum
  seg_removedSequenceNumber :: "SeqNum option"

record MergeTree =
  mt_segments :: "Segment list"
  mt_minSeq :: nat

text \<open>
  Modelled from the spec: a text run has the length of its text, a marker has length zero.
\<close>

definition contentLength :: "SegmentContent \<Rightarrow> nat" where
  "contentLength c = (case c of TextSegment t \<Rightarrow> length t | Marker \<Rightarrow> 0)"

definition contentText :: "SegmentContent \<Rightarrow> string" where
  "contentText c = (case c of TextSegment t \<Rightarrow> t | Marker \<Rightarrow> [])"

definition isRemoved :: "Segment \<Rightarrow> bool" where
  "isRemoved s = (seg_removedSequenceNumber s \<noteq> None)"

text \<open>
  Modelled from the spec: \<^verbatim>\<open>getLength()\<close> is the sum of the lengths of the segments that
  are not removed; \<^verbatim>\<open>getText()\<close> is their text in order, \<^verbatim>\<open>getText(start, end)\<close> its
  slice.
\<close>

definition getLength :: "MergeTree \<Rightarrow> nat" where
  "getLength T = sum_list (map (contentLength \<circ> seg_content) (filter (\<lambda>s. \<not> isRemoved s) (mt_segments T)))"

definition getText :: "MergeTree \<Rightarrow> string" where
  "getText T = concat (map (contentText \<circ> seg_content) (filter (\<lambda>s. \<not> isRemoved s) (mt_segments T)))"


text \<open>
  Modelled from the spec: the linearized content is one item for each character and for
  each marker, with the properties of the segment it belongs to. It does not depend on
  where segments are cut.
\<close>

datatype Item = CharItem char PropertySet | MarkerItem PropertySet

definition contentItems :: "SegmentContent \<Rightarrow> PropertySet \<Rightarrow> Item list" where
  "contentItems c ps = (case c of TextSegment t \<Rightarrow> map (\<lambda>ch. CharItem ch ps) t | Marker \<Rightarrow> [MarkerItem ps])"

definition linearize :: "MergeTree \<Rightarrow> Item list" where
  "linearize T =
     concat (map (\<lambda>s. contentItems (seg_content s) (seg_properties s))
                 (filter (\<lambda>s. \<not> isRemoved s) (mt_segments T)))"

text \<open>
  Modelled from the spec: visibility as of a sequence number. A segment inserted after it,
  or removed at or before it, is excluded; a pending insert or a pending removal has no
  sequence number yet.
\<close>

definition insertedBy :: "nat \<Rightarrow> Segment \<Rightarrow> bool" where
  "insertedBy n s =
     (case seg_sequenceNumber s of
        UniversalSequenceNumber \<Rightarrow> True
      | Sequenced k \<Rightarrow> k \<le> n
      | UnassignedSequenceNumber \<Rightarrow> False)"

definition removedBy :: "nat \<Rightarrow> Segment \<Rightarrow> bool" where
  "removedBy n s =
     (case seg_removedSequenceNumber s of
        None \<Rightarrow> False
      | Some UniversalSequenceNumber \<Rightarrow> True
      | Some (Sequenced k) \<Rightarrow> k \<le> n
      | Some UnassignedSequenceNumber \<Rightarrow> False)"

definition visibleAt :: "nat \<Rightarrow> Segment \<Rightarrow> bool" where
  "visibleAt n s = (insertedBy n s \<and> \<not> removedBy n s)"

text \<open>
  Modelled from the spec: a segment descriptor carries what is needed to rebuild the
  segment's content; a chunk is a flat ordered list of descriptors plus the minimum
  sequence number at snapshot time. A rebuilt segment has the universal sequence number,
  as in the test.
\<close>

record SegmentSpec =
  spec_content :: SegmentContent
  spec_properties :: PropertySet

record SnapshotChunk =
  chunk_segmentTexts :: "SegmentSpec list"
  chunk_minSeq :: nat

definition toSpec :: "Segment \<Rightarrow> SegmentSpec" where
  "toSpec s = \<lparr> spec_content = seg_content s, spec_properties = seg_properties s \<rparr>"

definition specToSegment :: "SegmentSpec \<Rightarrow> Segment" where
  "specToSegment d =
     \<lparr> seg_content = spec_content d, seg_properties = spec_properties d,
       seg_sequenceNumber = UniversalSequenceNumber, seg_removedSequenceNumber = None \<rparr>"

definition specsLength :: "SegmentSpec list \<Rightarrow> nat" where
  "specsLength ds = sum_list (map (contentLength \<circ> spec_content) ds)"

text \<open>
  Modelled from the spec: the header holds up to the capacity, counted in units of content
  length: it takes whole segment descriptors, in order, for as long as they fit; the
  remaining descriptors go to the body. No descriptor is cut.
\<close>

fun headerSpecs :: "nat \<Rightarrow> SegmentSpec list \<Rightarrow> SegmentSpec list" where
  "headerSpecs n [] = []"
| "headerSpecs n (d # ds) =
     (if contentLength (spec_content d) \<le> n
      then d # headerSpecs (n - contentLength (spec_content d)) ds
      else [])"

fun bodySpecs :: "nat \<Rightarrow> SegmentSpec list \<Rightarrow> SegmentSpec list" where
  "bodySpecs n [] = []"
| "bodySpecs n (d # ds) =
     (if contentLength (spec_content d) \<le> n
      then bodySpecs (n - contentLength (spec_content d)) ds
      else d # ds)"

text \<open>
  A list of descriptors has a boundary at \<open>n\<close> when some of its leading descriptors hold
  exactly \<open>n\<close> units: no run straddles position \<open>n\<close>.
\<close>

fun boundaryAt :: "nat \<Rightarrow> SegmentSpec list \<Rightarrow> bool" where
  "boundaryAt n [] = (n = 0)"
| "boundaryAt n (d # ds) =
     (n = 0 \<or> (contentLength (spec_content d) \<le> n \<and> boundaryAt (n - contentLength (spec_content d)) ds))"

text \<open>
  Modelled from the spec: \<^verbatim>\<open>extract()\<close> serializes the segments visible as of the tree's
  minimum sequence number, into the header chunk and, when the content exceeds the
  capacity \<open>sizeOfFirstChunk\<close> (a constant of the missing class, here a parameter), a
  body chunk.
\<close>

definition extractSync :: "nat \<Rightarrow> MergeTree \<Rightarrow> SnapshotChunk \<times> SnapshotChunk list" where
  "extractSync sizeOfFirstChunk T =
     (let ds = map toSpec (filter (visibleAt (mt_minSeq T)) (mt_segments T));
          header = \<lparr> chunk_segmentTexts = headerSpecs sizeOfFirstChunk ds, chunk_minSeq = mt_minSeq T \<rparr>
      in if specsLength ds > sizeOfFirstChunk
         then (header, [\<lparr> chunk_segmentTexts = bodySpecs sizeOfFirstChunk ds, chunk_minSeq = mt_minSeq T \<rparr>])
         else (header, []))"

text \<open>
  Modelled from the spec: \<^verbatim>\<open>load(header, body)\<close> rebuilds the header's content first, then
  appends the content of each body chunk at the end; with no body the tree is rebuilt from
  the header alone. The steps are those of the test: \<^verbatim>\<open>reloadFromSegments\<close> on the header's
  segments, \<^verbatim>\<open>insertSegments\<close> at the current length for the body's.
\<close>

definition reloadFromSegments :: "nat \<Rightarrow> Segment list \<Rightarrow> MergeTree" where
  "reloadFromSegments m segs = \<lparr> mt_segments = segs, mt_minSeq = m \<rparr>"

definition insertSegmentsAtEnd :: "Segment list \<Rightarrow> MergeTree \<Rightarrow> MergeTree" where
  "insertSegmentsAtEnd segs T = T\<lparr> mt_segments := mt_segments T @ segs \<rparr>"

definition loadHeader :: "SnapshotChunk \<Rightarrow> MergeTree" where
  "loadHeader header = reloadFromSegments (chunk_minSeq header) (map specToSegment (chunk_segmentTexts header))"

definition load :: "SnapshotChunk \<times> SnapshotChunk list \<Rightarrow> MergeTree" where
  "load chunks =
     fold (\<lambda>body T. insertSegmentsAtEnd (map specToSegment (chunk_segmentTexts body)) T)
          (snd chunks) (loadHeader (fst chunks))"

text \<open>
  A tree is settled at its minimum sequence number when what is visible as of that number
  is what is visible now: no insert and no removal is pending or sequenced above it.
\<close>

definition settledAtMinSeq :: "MergeTree \<Rightarrow> bool" where
  "settledAtMinSeq T = list_all (\<lambda>s. visibleAt (mt_minSeq T) s = (\<not> isRemoved s)) (mt_segments T)"

text \<open>
  The text, the items and the content that a list of descriptors stands for, and the
  descriptors that \<open>extractSync\<close> serializes.
\<close>

definition specsText :: "SegmentSpec list \<Rightarrow> string" where
  "specsText ds = concat (map (contentText \<circ> spec_content) ds)"

definition specsItems :: "SegmentSpec list \<Rightarrow> Item list" where
  "specsItems ds = concat (map (\<lambda>d. contentItems (spec_content d) (spec_properties d)) ds)"

definition snapshotSpecs :: "MergeTree \<Rightarrow> SegmentSpec list" where
  "snapshotSpecs T = map toSpec (filter (visibleAt (mt_minSeq T)) (mt_segments T))"


section \<open>Example inputs\<close>

text \<open>Cell messages from another client, and a cell with a local set in flight.\<close>

definition setCellOp :: "jsvalue \<Rightarrow> ICellOperation" where
  "setCellOp v = \<lparr> opType = ''setCell'', opValue = Some \<lparr> cvType = ''Plain'', cvValue = v \<rparr> \<rparr>"

definition deleteCellOp :: ICellOperation where
  "deleteCellOp = \<lparr> opType = ''deleteCell'', opValue = None \<rparr>"

definition clearCellOp :: ICellOperation where
  "clearCellOp = \<lparr> opType = ''clearCell'', opValue = None \<rparr>"

definition cellMessage :: "int \<Rightarrow> ICellOperation \<Rightarrow> ICellOperation ISequencedDocumentMessage" where
  "cellMessage n op =
     \<lparr> clientId = ''other'', clientSequenceNumber = n, contents = op,
       minimumSequenceNumber = 0, origin = None, referenceSequenceNumber = 0, sequenceNumber = 1,
       timestamp = 0, traces = [], msgType = Operation \<rparr>"

definition pendingCell :: Cell where
  "pendingCell = cell_set False 5 (PlainValue ''mine'') newCell"

text \<open>A registry that knows the cell extension, and runtimes built through the runtime's own calls.\<close>

definition exampleChannel :: "string \<Rightarrow> IChannel" where
  "exampleChannel i =
     \<lparr> channel_id = i, channel_type = ''cell'', channel_isRegistered = True,
       channel_snapshotFormatVersion = ''0.1'', channel_snapshot = ''{}'' \<rparr>"

definition exampleExtension :: ISharedObjectExtension where
  "exampleExtension =
     \<lparr> ext_snapshotFormatVersion = ''0.1'', ext_create = exampleChannel,
       ext_load = (\<lambda>i m sv b. Returned (exampleChannel i)) \<rparr>"

definition exampleEnv :: Collaborators where
  "exampleEnv =
     \<lparr> registry = (\<lambda>t. if t = ''cell'' then Some exampleExtension else None),
       submitMessageResult = (\<lambda>t c. Returned 1),
       connectionPrepare = (\<lambda>c m l. Returned NoContext),
       connectionProcess = (\<lambda>c m l x. None),
       createBlob = (\<lambda>f. f),
       hostRequest = (\<lambda>u. \<lparr> status = 200, mimeType = ''text/plain'', response_value = u \<rparr>),
       handlerRequest = (\<lambda>h u. \<lparr> status = 200, mimeType = ''text/plain'', response_value = h \<rparr>) \<rparr>"

definition runtimeMessage :: "MessageType \<Rightarrow> rt_contents \<Rightarrow> rt_contents ISequencedDocumentMessage" where
  "runtimeMessage ty c =
     \<lparr> clientId = ''other'', clientSequenceNumber = 3, contents = c,
       minimumSequenceNumber = 0, origin = None, referenceSequenceNumber = 0, sequenceNumber = 1,
       timestamp = 0, traces = [], msgType = ty \<rparr>"

definition closedRuntime :: ComponentRuntime where
  "closedRuntime = snd (stop (newComponentRuntime ''doc'' True))"

definition connectedChannelState :: IChannelState where
  "connectedChannelState =
     \<lparr> cs_object = exampleChannel ''c1'', cs_storage = Some ''c1'',
       cs_connection = Some ''c1'', cs_baseId = None \<rparr>"

definition connectedRuntime :: ComponentRuntime where
  "connectedRuntime =
     snd (registerChannel exampleEnv (exampleChannel ''c1'')
            (snd (createChannel exampleEnv ''c1'' ''cell'' (newComponentRuntime ''doc'' True))))"

text \<open>Trees: one settled at its minimum sequence number, two with an insert above it.\<close>

definition textSeg :: "string \<Rightarrow> PropertySet \<Rightarrow> SeqNum \<Rightarrow> SeqNum option \<Rightarrow> Segment" where
  "textSeg t ps sq rm =
     \<lparr> seg_content = TextSegment t, seg_properties = ps,
       seg_sequenceNumber = sq, seg_removedSequenceNumber = rm \<rparr>"

definition markerSeg :: "PropertySet \<Rightarrow> SeqNum \<Rightarrow> SeqNum option \<Rightarrow> Segment" where
  "markerSeg ps sq rm =
     \<lparr> seg_content = Marker, seg_properties = ps,
       seg_sequenceNumber = sq, seg_removedSequenceNumber = rm \<rparr>"

definition settledTree :: MergeTree where
  "settledTree =
     \<lparr> mt_segments =
         [textSeg ''ab'' [(''bold'', ''true'')] UniversalSequenceNumber None,
          markerSeg [(''markerId'', ''m0'')] (Sequenced 2) None,
          textSeg ''zz'' [] (Sequenced 1) (Some (Sequenced 2)),
          textSeg ''cde'' [] (Sequenced 3) None],
       mt_minSeq = 3 \<rparr>"

definition lateInsertTree :: MergeTree where
  "lateInsertTree = \<lparr> mt_segments = [textSeg ''a'' [] (Sequenced 5) None], mt_minSeq = 3 \<rparr>"


section \<open>Cell: local echoes, pending state and remote operations\<close>

text \<open>
  Claim C10. While a cell has a pending local operation (\<open>pendingClientSequenceNumber\<close> is
  not \<open>-1\<close>), \<open>processCore\<close> leaves the cell's data, and everything else but the pending
  number, unchanged for every incoming message, remote \<open>setCell\<close> and \<open>deleteCell\<close>
  included; the only message with an effect is the local echo whose client sequence number
  equals the pending one, and it only resets the pending number to \<open>-1\<close>. A second
  submission overwrites the pending number, so the echo of the first submission changes
  nothing and only the echo of the last one clears the pending state.
\<close>

theorem cell_pending_frame:
  "(pendingClientSequenceNumber c \<noteq> - 1 \<longrightarrow>
      processCore m local ctx c =
        (Returned (),
         if local \<and> clientSequenceNumber m = pendingClientSequenceNumber c
         then c\<lparr> pendingClientSequenceNumber := - 1 \<rparr> else c)
      \<and> data (snd (processCore m local ctx c)) = data c
      \<and> effects (snd (processCore m local ctx c)) = effects c)
   \<and> pendingClientSequenceNumber (submitCellMessage n2 op2 (submitCellMessage n1 op1 c)) = n2
   \<and> (n2 \<noteq> - 1 \<and> n1 \<noteq> n2 \<and> clientSequenceNumber m1 = n1 \<longrightarrow>
        processCore m1 True ctx1 (submitCellMessage n2 op2 (submitCellMessage n1 op1 c))
          = (Returned (), submitCellMessage n2 op2 (submitCellMessage n1 op1 c)))
   \<and> (n2 \<noteq> - 1 \<and> clientSequenceNumber m2 = n2 \<longrightarrow>
        processCore m2 True ctx2 (submitCellMessage n2 op2 (submitCellMessage n1 op1 c))
          = (Returned (), (submitCellMessage n2 op2 (submitCellMessage n1 op1 c))
                             \<lparr> pendingClientSequenceNumber := - 1 \<rparr>))"
  by (simp add: processCore_def submitCellMessage_def)

text \<open>
  The cell waits for the echo of its own set (client sequence number 5): a remote
  \<open>setCell\<close> is ignored; after two more submissions (6, then 7) the echo of 6 changes
  nothing and the echo of 7 clears the pending state.
\<close>

theorem cell_pending_frame_witness:
  "pendingClientSequenceNumber pendingCell \<noteq> - 1
   \<and> processCore (cellMessage 9 (setCellOp (PlainValue ''theirs''))) False (PlainValue ''theirs'') pendingCell
       = (Returned (), pendingCell)
   \<and> data pendingCell = PlainValue ''mine''
   \<and> ((7::int) \<noteq> - 1 \<and> (6::int) \<noteq> 7 \<and> clientSequenceNumber (cellMessage 6 deleteCellOp) = 6)
   \<and> processCore (cellMessage 6 deleteCellOp) True Undefined
         (submitCellMessage 7 deleteCellOp (submitCellMessage 6 deleteCellOp pendingCell))
       = (Returned (), submitCellMessage 7 deleteCellOp (submitCellMessage 6 deleteCellOp pendingCell))
   \<and> clientSequenceNumber (cellMessage 7 deleteCellOp) = 7
   \<and> pendingClientSequenceNumber (snd (processCore (cellMessage 7 deleteCellOp) True Undefined
         (submitCellMessage 7 deleteCellOp (submitCellMessage 6 deleteCellOp pendingCell)))) = - 1"
proof -
  have p: "pendingClientSequenceNumber pendingCell = 5" and d: "data pendingCell = PlainValue ''mine''"
    by (simp_all add: pendingCell_def cell_set_def submitCellMessage_def setCore_def newCell_def)
  have c6: "clientSequenceNumber (cellMessage 6 deleteCellOp) = 6"
    and c7: "clientSequenceNumber (cellMessage 7 deleteCellOp) = 7"
    and c9: "clientSequenceNumber (cellMessage 9 (setCellOp (PlainValue ''theirs''))) = 9"
    by (simp_all add: cellMessage_def)
  show ?thesis
    using cell_pending_frame [of pendingCell "cellMessage 9 (setCellOp (PlainValue ''theirs''))" False
        "PlainValue ''theirs''" 7 deleteCellOp 6 deleteCellOp
        "cellMessage 6 deleteCellOp" Undefined "cellMessage 7 deleteCellOp" Undefined]
    by (simp add: p d c6 c7 c9)
qed

text \<open>
  Claim C5. The echo of a local operation, recognised as local with the pending client
  sequence number, only clears the pending marker: no local message changes the cell's
  data or emits an event. The content was applied at submission time: \<open>set\<close> and
  \<open>delete\<close> change the data and emit the change event before they submit the message, and
  they return with the pending number already recorded. The counter does the same:
  \<open>increment\<close> adds the value before it hands the operation to the emitter, and
  \<open>process\<close> returns at once for a local operation.
\<close>

theorem local_echo_clears_pending_only:
  "(pendingClientSequenceNumber c \<noteq> - 1 \<and> clientSequenceNumber m = pendingClientSequenceNumber c \<longrightarrow>
      processCore m True ctx c = (Returned (), c\<lparr> pendingClientSequenceNumber := - 1 \<rparr>))
   \<and> fst (processCore m True ctx c) = Returned ()
   \<and> data (snd (processCore m True ctx c)) = data c
   \<and> effects (snd (processCore m True ctx c)) = effects c
   \<and> data (cell_set isLoc n v c) = v
   \<and> pendingClientSequenceNumber (cell_set isLoc n v c) = n
   \<and> effects (cell_set isLoc n v c) =
       effects c
       @ (case v of SharedObject i \<Rightarrow> if \<not> isLoc then [AttachedValue i] else [] | _ \<Rightarrow> [])
       @ [Emitted ''valueChanged'' [v],
          SubmittedLocalMessage \<lparr> opType = ''setCell'',
            opValue = Some (case v of SharedObject i \<Rightarrow> \<lparr> cvType = ''Shared'', cvValue = PlainValue i \<rparr>
                                     | _ \<Rightarrow> \<lparr> cvType = ''Plain'', cvValue = v \<rparr>) \<rparr>]
   \<and> data (cell_delete n c) = Undefined
   \<and> pendingClientSequenceNumber (cell_delete n c) = n
   \<and> effects (cell_delete n c) =
       effects c @ [Emitted ''delete'' [], SubmittedLocalMessage \<lparr> opType = ''deleteCell'', opValue = None \<rparr>]
   \<and> counter_process p True k = k
   \<and> counter_value (increment p True k) = counter_value k + p
   \<and> counter_effects (increment p True k) =
       counter_effects k @ [OpEmitted ''increment'' (counter_value k) p, Incremented p (counter_value k + p)]"
  by (cases v)
     (simp_all add: processCore_def cell_set_def cell_delete_def setCore_def deleteCore_def
        submitCellMessage_def counter_process_def increment_def Let_def)

text \<open>The echo of the pending set (client sequence number 5) leaves the value set locally.\<close>

theorem local_echo_clears_pending_only_witness:
  "(pendingClientSequenceNumber pendingCell \<noteq> - 1
    \<and> clientSequenceNumber (cellMessage 5 (setCellOp (PlainValue ''mine''))) = pendingClientSequenceNumber pendingCell)
   \<and> processCore (cellMessage 5 (setCellOp (PlainValue ''mine''))) True Undefined pendingCell
       = (Returned (), pendingCell\<lparr> pendingClientSequenceNumber := - 1 \<rparr>)
   \<and> data (snd (processCore (cellMessage 5 (setCellOp (PlainValue ''mine''))) True Undefined pendingCell))
       = PlainValue ''mine''
   \<and> effects pendingCell =
       [Emitted ''valueChanged'' [PlainValue ''mine''], SubmittedLocalMessage (setCellOp (PlainValue ''mine''))]"
proof -
  have p: "pendingClientSequenceNumber pendingCell = 5" and d: "data pendingCell = PlainValue ''mine''"
    and e: "effects pendingCell =
       [Emitted ''valueChanged'' [PlainValue ''mine''], SubmittedLocalMessage (setCellOp (PlainValue ''mine''))]"
    by (simp_all add: pendingCell_def cell_set_def submitCellMessage_def setCore_def newCell_def setCellOp_def)
  have c5: "clientSequenceNumber (cellMessage 5 (setCellOp (PlainValue ''mine''))) = 5"
    by (simp add: cellMessage_def)
  show ?thesis
    using local_echo_clears_pending_only [of pendingCell "cellMessage 5 (setCellOp (PlainValue ''mine''))" Undefined]
    by (simp add: p d e c5)
qed

text \<open>
  Claim C4, as the code has it. A remote Operation message that reaches a cell with no
  pending local operation is never dropped: \<open>setCell\<close> stores the prepared value,
  \<open>deleteCell\<close> clears the cell, and any other operation type throws
  \<open>Unknown operation\<close>. \<open>processCore\<close> never applies an operation in part: it ends in the
  unchanged cell, the cell with its pending number cleared, the full set or the full
  delete, and when it throws the cell is unchanged. A message that arrives while a local
  operation is pending, a local message and a message that is not an Operation are
  accepted without an error and without a change to the data. The runtime hands an
  Operation message to \<open>processOp\<close> and rethrows its error; for a channel that has a
  connection, \<open>processOp\<close> delivers the message to that connection and rethrows what the
  connection throws.
\<close>

theorem cell_remote_operation_applied_or_thrown:
  "(pendingClientSequenceNumber c = - 1 \<and> msgType m = Operation \<longrightarrow>
      processCore m False ctx c =
        (if opType (contents m) = ''setCell'' then (Returned (), setCore ctx c)
         else if opType (contents m) = ''deleteCell'' then (Returned (), deleteCore c)
         else (Threw (Error ''Unknown operation''), c)))
   \<and> snd (processCore m local ctx c)
        \<in> {c, c\<lparr> pendingClientSequenceNumber := - 1 \<rparr>, setCore ctx c, deleteCore c}
   \<and> (fst (processCore m False ctx c) \<noteq> Returned () \<longrightarrow> snd (processCore m False ctx c) = c)
   \<and> (pendingClientSequenceNumber c2 \<noteq> - 1 \<or> local2 \<or> msgType m2 \<noteq> Operation \<longrightarrow>
        fst (processCore m2 local2 ctx2 c2) = Returned ()
        \<and> data (snd (processCore m2 local2 ctx2 c2)) = data c2
        \<and> effects (snd (processCore m2 local2 ctx2 c2)) = effects c2)
   \<and> (msgType rm = Operation \<longrightarrow>
        process env rm rlocal rctx rt =
          (case processOp env rm rlocal rctx rt of
             (Threw e, rt1) \<Rightarrow> (Threw e, rt1)
           | (Returned ch, rt1) \<Rightarrow> (Returned (), emit (EmitOp rm (Some ch)) rt1)))
   \<and> (\<not> closed rt \<and> contents rm = Envelope a inner \<and> map_of (channels rt) a = Some od
        \<and> cs_connection od = Some cn \<longrightarrow>
        processOp env rm rlocal rctx rt =
          ((case connectionProcess env cn (transformed rm inner) rlocal rctx of
              Some e \<Rightarrow> Threw e
            | None \<Rightarrow> Returned (cs_object od)),
           emit (ConnectionProcess cn (transformed rm inner) rlocal rctx)
             (rt\<lparr> channels := AList.update a (od\<lparr> cs_baseId := None \<rparr>) (channels rt) \<rparr>)))"
proof -
  have cell: "(pendingClientSequenceNumber c = - 1 \<and> msgType m = Operation \<longrightarrow>
      processCore m False ctx c =
        (if opType (contents m) = ''setCell'' then (Returned (), setCore ctx c)
         else if opType (contents m) = ''deleteCell'' then (Returned (), deleteCore c)
         else (Threw (Error ''Unknown operation''), c)))
   \<and> snd (processCore m local ctx c)
        \<in> {c, c\<lparr> pendingClientSequenceNumber := - 1 \<rparr>, setCore ctx c, deleteCore c}
   \<and> (fst (processCore m False ctx c) \<noteq> Returned () \<longrightarrow> snd (processCore m False ctx c) = c)"
    by (simp add: processCore_def Let_def)
  have dropped: "pendingClientSequenceNumber c2 \<noteq> - 1 \<or> local2 \<or> msgType m2 \<noteq> Operation \<longrightarrow>
        fst (processCore m2 local2 ctx2 c2) = Returned ()
        \<and> data (snd (processCore m2 local2 ctx2 c2)) = data c2
        \<and> effects (snd (processCore m2 local2 ctx2 c2)) = effects c2"
    by (simp add: processCore_def Let_def)
  have dispatch: "msgType rm = Operation \<longrightarrow>
        process env rm rlocal rctx rt =
          (case processOp env rm rlocal rctx rt of
             (Threw e, rt1) \<Rightarrow> (Threw e, rt1)
           | (Returned ch, rt1) \<Rightarrow> (Returned (), emit (EmitOp rm (Some ch)) rt1))"
    by (simp add: process_def split: prod.splits outcome.splits)
  have deliver: "\<not> closed rt \<and> contents rm = Envelope a inner \<and> map_of (channels rt) a = Some od
        \<and> cs_connection od = Some cn \<longrightarrow>
        processOp env rm rlocal rctx rt =
          ((case connectionProcess env cn (transformed rm inner) rlocal rctx of
              Some e \<Rightarrow> Threw e
            | None \<Rightarrow> Returned (cs_object od)),
           emit (ConnectionProcess cn (transformed rm inner) rlocal rctx)
             (rt\<lparr> channels := AList.update a (od\<lparr> cs_baseId := None \<rparr>) (channels rt) \<rparr>))"
    by (simp add: processOp_def verifyNotClosed_def Let_def split: option.splits)
  show ?thesis
    using cell dropped dispatch deliver by blast
qed

text \<open>
  A remote \<open>clearCell\<close> on a fresh cell throws and leaves it as it was; a remote
  \<open>setCell\<close> on the cell that waits for its echo is accepted and dropped; an Operation
  message addressed to the connected channel \<open>c1\<close> is delivered to its connection.
\<close>

theorem cell_remote_operation_applied_or_thrown_witness:
  "(pendingClientSequenceNumber newCell = - 1 \<and> msgType (cellMessage 9 clearCellOp) = Operation)
   \<and> processCore (cellMessage 9 clearCellOp) False Undefined newCell
       = (Threw (Error ''Unknown operation''), newCell)
   \<and> fst (processCore (cellMessage 9 clearCellOp) False Undefined newCell) \<noteq> Returned ()
   \<and> pendingClientSequenceNumber pendingCell \<noteq> - 1
   \<and> data (snd (processCore (cellMessage 9 (setCellOp (PlainValue ''theirs''))) False
                   (PlainValue ''theirs'') pendingCell)) = PlainValue ''mine''
   \<and> msgType (runtimeMessage Operation (Envelope ''c1'' ''op'')) = Operation
   \<and> (\<not> closed connectedRuntime
        \<and> contents (runtimeMessage Operation (Envelope ''c1'' ''op'')) = Envelope ''c1'' ''op''
        \<and> map_of (channels connectedRuntime) ''c1'' = Some connectedChannelState
        \<and> cs_connection connectedChannelState = Some ''c1'')
   \<and> fst (process exampleEnv (runtimeMessage Operation (Envelope ''c1'' ''op'')) False NoContext connectedRuntime)
       = Returned ()
   \<and> last (log (snd (processOp exampleEnv (runtimeMessage Operation (Envelope ''c1'' ''op'')) False NoContext
                        connectedRuntime)))
       = ConnectionProcess ''c1'' (transformed (runtimeMessage Operation (Envelope ''c1'' ''op'')) ''op'') False NoContext"
proof -
  have h1: "pendingClientSequenceNumber newCell = - 1 \<and> msgType (cellMessage 9 clearCellOp) = Operation"
    by (simp add: newCell_def cellMessage_def)
  have ty: "opType (contents (cellMessage 9 clearCellOp)) = ''clearCell''"
    by (simp add: cellMessage_def clearCellOp_def)
  have p: "pendingClientSequenceNumber pendingCell = 5" and d: "data pendingCell = PlainValue ''mine''"
    by (simp_all add: pendingCell_def cell_set_def submitCellMessage_def setCore_def newCell_def)
  have rm: "msgType (runtimeMessage Operation (Envelope ''c1'' ''op'')) = Operation"
    "contents (runtimeMessage Operation (Envelope ''c1'' ''op'')) = Envelope ''c1'' ''op''"
    by (simp_all add: runtimeMessage_def)
  have rt: "\<not> closed connectedRuntime"
    "map_of (channels connectedRuntime) ''c1'' = Some connectedChannelState"
    "cs_connection connectedChannelState = Some ''c1''"
    by (simp_all add: connectedRuntime_def connectedChannelState_def registerChannel_def
        attachChannel_def createChannel_def submit_def getAndAttachChannelServices_def
        getObjectServices_def resolveChannel_def verifyNotClosed_def newComponentRuntime_def
        exampleEnv_def exampleExtension_def exampleChannel_def emit_def Let_def)
  have cp: "connectionProcess exampleEnv ''c1''
              (transformed (runtimeMessage Operation (Envelope ''c1'' ''op'')) ''op'') False NoContext = None"
    by (simp add: exampleEnv_def)
  show ?thesis
    using cell_remote_operation_applied_or_thrown [of newCell "cellMessage 9 clearCellOp" Undefined False
        pendingCell False "cellMessage 9 (setCellOp (PlainValue ''theirs''))" "PlainValue ''theirs''"
        "runtimeMessage Operation (Envelope ''c1'' ''op'')" exampleEnv False NoContext connectedRuntime
        "''c1''" "''op''" connectedChannelState "''c1''"]
    by (simp add: h1 ty p d rm rt cp emit_def)
qed

text \<open>
  The claim as it is written fails where the cell waits for its own echo: the remote
  \<open>setCell\<close> is accepted without an error, and the cell does not take the value.
\<close>

theorem pending_cell_drops_remote_set:
  "fst (processCore (cellMessage 9 (setCellOp (PlainValue ''theirs''))) False (PlainValue ''theirs'') pendingCell)
     = Returned ()
   \<and> snd (processCore (cellMessage 9 (setCellOp (PlainValue ''theirs''))) False (PlainValue ''theirs'') pendingCell)
     = pendingCell
   \<and> data pendingCell \<noteq> PlainValue ''theirs''"
  by (simp add: processCore_def pendingCell_def cell_set_def submitCellMessage_def setCore_def
      newCell_def cellMessage_def)

text \<open>
  Claim C7, as the code has it. \<open>processCore\<close> throws \<open>Unknown operation\<close> exactly when the
  cell has no pending local operation and the message is a remote Operation message whose
  operation type is neither \<open>setCell\<close> nor \<open>deleteCell\<close>, and it throws before it changes
  the cell. An unknown operation type that arrives while a local operation is pending, or
  in a local message, is skipped without an error. The runtime's \<open>process\<close> skips a message
  whose type is neither Attach nor Operation: it only emits the \<open>op\<close> event.
\<close>

theorem unknown_operation_thrown_iff:
  "(fst (processCore m local ctx c) = Threw (Error ''Unknown operation'')) =
     (pendingClientSequenceNumber c = - 1 \<and> msgType m = Operation \<and> \<not> local
      \<and> opType (contents m) \<noteq> ''setCell'' \<and> opType (contents m) \<noteq> ''deleteCell'')
   \<and> (fst (processCore m local ctx c) = Threw (Error ''Unknown operation'') \<longrightarrow>
        snd (processCore m local ctx c) = c)
   \<and> (msgType rm \<noteq> Attach \<and> msgType rm \<noteq> Operation \<longrightarrow>
        process env rm rlocal rctx rt = (Returned (), emit (EmitOp rm None) rt))"
proof -
  have "msgType rm \<noteq> Attach \<and> msgType rm \<noteq> Operation \<longrightarrow>
        process env rm rlocal rctx rt = (Returned (), emit (EmitOp rm None) rt)"
    by (cases "msgType rm") (simp_all add: process_def)
  then show ?thesis
    by (simp add: processCore_def Let_def)
qed

text \<open>
  A remote \<open>clearCell\<close> on a fresh cell throws; a message of type \<open>noop\<close> passes through
  the runtime.
\<close>

theorem unknown_operation_thrown_iff_witness:
  "fst (processCore (cellMessage 9 clearCellOp) False Undefined newCell) = Threw (Error ''Unknown operation'')
   \<and> snd (processCore (cellMessage 9 clearCellOp) False Undefined newCell) = newCell
   \<and> (msgType (runtimeMessage (OtherMessageType ''noop'') (OtherContents [])) \<noteq> Attach
      \<and> msgType (runtimeMessage (OtherMessageType ''noop'') (OtherContents [])) \<noteq> Operation)
   \<and> fst (process exampleEnv (runtimeMessage (OtherMessageType ''noop'') (OtherContents [])) False NoContext
            (newComponentRuntime ''doc'' True)) = Returned ()"
proof -
  have h: "pendingClientSequenceNumber newCell = - 1 \<and> msgType (cellMessage 9 clearCellOp) = Operation
           \<and> opType (contents (cellMessage 9 clearCellOp)) = ''clearCell''"
    by (simp add: newCell_def cellMessage_def clearCellOp_def)
  have r: "msgType (runtimeMessage (OtherMessageType ''noop'') (OtherContents [])) = OtherMessageType ''noop''"
    by (simp add: runtimeMessage_def)
  show ?thesis
    using unknown_operation_thrown_iff [of "cellMessage 9 clearCellOp" False Undefined newCell
        "runtimeMessage (OtherMessageType ''noop'') (OtherContents [])" exampleEnv False NoContext
        "newComponentRuntime ''doc'' True"]
    by (simp add: h r)
qed

text \<open>
  The claim as it is written fails where the cell waits for its own echo: a remote
  operation of the unknown type \<open>clearCell\<close> is skipped, and nothing is thrown.
\<close>

theorem pending_cell_skips_unknown_operation:
  "opType (contents (cellMessage 9 clearCellOp)) \<noteq> ''setCell''
   \<and> opType (contents (cellMessage 9 clearCellOp)) \<noteq> ''deleteCell''
   \<and> processCore (cellMessage 9 clearCellOp) False Undefined pendingCell = (Returned (), pendingCell)"
  by (simp add: processCore_def pendingCell_def cell_set_def submitCellMessage_def setCore_def
      newCell_def cellMessage_def clearCellOp_def)

section \<open>ComponentRuntime: the closed state and channel loading\<close>

lemma getAndAttach_closed: "closed (snd (getAndAttachChannelServices ch rt)) = closed rt"
  by (simp add: getAndAttachChannelServices_def Let_def split: option.splits)

lemma attachQueued_closed: "closed (snd (attachQueued chs rt)) = closed rt"
proof (induction chs arbitrary: rt)
  case Nil
  show ?case by simp
next
  case (Cons ch chs)
  show ?case
  proof (cases "getAndAttachChannelServices ch rt")
    case (Pair r rt1)
    have c1: "closed rt1 = closed rt"
      using getAndAttach_closed [of ch rt] Pair by simp
    show ?thesis
    proof (cases r)
      case (Returned services)
      then show ?thesis
        using Pair c1 Cons.IH [of "emit (ChannelConnect (channel_id ch) services) rt1"]
        by (simp add: emit_def)
    next
      case (Threw e)
      then show ?thesis using Pair c1 by simp
    qed
  qed
qed

lemma attach_closed: "closed (snd (attach rt)) = closed rt"
proof (cases "attachQueued (map snd (attachChannelQueue rt)) (emit ContextAttach rt)")
  case (Pair r rt1)
  have "closed rt1 = closed rt"
    using attachQueued_closed [of "map snd (attachChannelQueue rt)" "emit ContextAttach rt"] Pair
    by (simp add: emit_def)
  then show ?thesis using Pair
    by (cases r) (simp_all add: attach_def)
qed

lemma request_closed: "closed (snd (request env url rt)) = closed rt"
  by (simp add: request_def emit_def Let_def split: option.splits Deferred.splits)

lemma guarded_closed:
  assumes "closed rt"
  shows "getChannel i rt = (Threw closedError, rt)"
    and "createChannel env i ty rt = (Threw closedError, rt)"
    and "changeConnectionState env v cid rt = (Threw closedError, rt)"
    and "getQuorum rt = (Threw closedError, rt)"
    and "snapshot msg rt = (Threw closedError, rt)"
    and "save env tag rt = (Threw closedError, rt)"
    and "getBlob b rt = (Threw closedError, rt)"
    and "stop rt = (Threw closedError, rt)"
    and "submitMessage env mt content rt = (Threw closedError, rt)"
    and "submitSignal sty scontent rt = (Threw closedError, rt)"
    and "attachChannel env ch rt = (Threw closedError, rt)"
    and "processOp env m local ctx rt = (Threw closedError, rt)"
    and "processAttach m local ctx rt = (Threw closedError, rt)"
    and "uploadBlob env file rt = (Threw closedError, rt)"
    and "prepareOp env m local rt = (Threw closedError, rt)"
    and "prepareAttach env m local rt = (Threw closedError, rt)"
  using assms
  by (simp_all add: getChannel_def createChannel_def changeConnectionState_def getQuorum_def
      snapshot_def save_def getBlob_def stop_def submitMessage_def submit_def submitSignal_def
      attachChannel_def processOp_def processAttach_def uploadBlob_def prepareOp_def
      prepareAttach_def verifyNotClosed_def)

lemma request_open:
  "request env url rt =
     (fst (request env url (rt\<lparr> closed := False \<rparr>)),
      (snd (request env url (rt\<lparr> closed := False \<rparr>)))\<lparr> closed := closed rt \<rparr>)"
  by (simp add: request_def emit_def Let_def split: option.splits Deferred.splits)

lemma request_returns: "\<exists>r. fst (request env url rt) = Returned r"
  by (simp add: request_def Let_def split: option.splits Deferred.splits)

text \<open>
  Claim C6, as the code has it. \<open>stop\<close> closes the runtime, and a closed runtime stays
  closed: no call resets the flag. Every call that checks \<open>verifyNotClosed\<close>
  (\<open>getChannel\<close>, \<open>createChannel\<close>, \<open>changeConnectionState\<close>, \<open>getQuorum\<close>, \<open>snapshot\<close>,
  \<open>save\<close>, \<open>uploadBlob\<close>, \<open>getBlob\<close>, \<open>stop\<close>, \<open>submitMessage\<close>, \<open>submitSignal\<close>,
  \<open>attachChannel\<close>, \<open>prepareOp\<close>, \<open>processOp\<close>, \<open>prepareAttach\<close>, \<open>processAttach\<close>, hence
  \<open>prepare\<close> and \<open>process\<close> for Attach and Operation messages and \<open>registerChannel\<close> on an
  attached runtime) throws \<open>Runtime is closed\<close> and leaves the runtime as it was.
  \<open>request\<close> and \<open>close\<close> carry no such check: on a closed runtime \<open>request\<close> returns
  what it returns on the same runtime when open, and \<open>close\<close> returns after it has called
  the close function.
\<close>

theorem closed_runtime_rejects_guarded_calls:
  "closed rt \<Longrightarrow>
     getChannel i rt = (Threw closedError, rt)
   \<and> createChannel env i ty rt = (Threw closedError, rt)
   \<and> changeConnectionState env v cid rt = (Threw closedError, rt)
   \<and> getQuorum rt = (Threw closedError, rt)
   \<and> snapshot msg rt = (Threw closedError, rt)
   \<and> save env tag rt = (Threw closedError, rt)
   \<and> getBlob b rt = (Threw closedError, rt)
   \<and> stop rt = (Threw closedError, rt)
   \<and> submitMessage env mt content rt = (Threw closedError, rt)
   \<and> submitSignal sty scontent rt = (Threw closedError, rt)
   \<and> attachChannel env ch rt = (Threw closedError, rt)
   \<and> processOp env m local ctx rt = (Threw closedError, rt)
   \<and> processAttach m local ctx rt = (Threw closedError, rt)
   \<and> uploadBlob env file rt = (Threw closedError, rt)
   \<and> prepareOp env m local rt = (Threw closedError, rt)
   \<and> prepareAttach env m local rt = (Threw closedError, rt)
   \<and> (msgType m = Attach \<or> msgType m = Operation \<longrightarrow>
        process env m local ctx rt = (Threw closedError, rt)
        \<and> prepare env m local rt = (Threw closedError, rt))
   \<and> (\<not> isLocal rt \<longrightarrow> registerChannel env ch rt = (Threw closedError, rt))
   \<and> (\<exists>r. fst (request env url rt) = Returned r)
   \<and> request env url rt =
        (fst (request env url (rt\<lparr> closed := False \<rparr>)),
         (snd (request env url (rt\<lparr> closed := False \<rparr>)))\<lparr> closed := True \<rparr>)
   \<and> close rt = (Returned (), emit CloseFn rt)
   \<and> closed (snd (request env url rt))
   \<and> closed (snd (registerRequestHandler h rt))
   \<and> closed (snd (registerChannel env ch rt))
   \<and> closed (snd (attach rt))
   \<and> closed (snd (prepare env m local rt))
   \<and> closed (snd (process env m local ctx rt))
   \<and> closed (snd (processSignal sig local rt))
   \<and> closed (snd (close rt))
   \<and> closed (snd (stop rt0))"
proof -
  assume c: "closed rt"
  note g = guarded_closed [OF c]
  have p: "msgType m = Attach \<or> msgType m = Operation \<longrightarrow>
        process env m local ctx rt = (Threw closedError, rt)
        \<and> prepare env m local rt = (Threw closedError, rt)"
    by (cases "msgType m") (simp_all add: process_def prepare_def g)
  have r: "\<not> isLocal rt \<longrightarrow> registerChannel env ch rt = (Threw closedError, rt)"
    by (simp add: registerChannel_def g)
  have q: "request env url rt =
        (fst (request env url (rt\<lparr> closed := False \<rparr>)),
         (snd (request env url (rt\<lparr> closed := False \<rparr>)))\<lparr> closed := True \<rparr>)"
    using request_open [of env url rt] c by simp
  have r2: "closed (snd (registerChannel env ch rt))"
    using c by (simp add: registerChannel_def g)
  have p2: "closed (snd (process env m local ctx rt))"
    using c by (cases "msgType m") (simp_all add: process_def g emit_def)
  have p3: "closed (snd (prepare env m local rt))"
    using c by (cases "msgType m") (simp_all add: prepare_def g)
  have s: "closed (snd (stop rt0))"
    by (simp add: stop_def verifyNotClosed_def Let_def)
  show ?thesis
    using g p r q r2 p2 p3 c s request_returns [of env url rt]
    by (simp add: request_closed attach_closed registerRequestHandler_def processSignal_def
        close_def emit_def)
qed

text \<open>
  The runtime that \<open>stop\<close> has closed is attached: it rejects \<open>getChannel\<close>, an Operation
  message, \<open>registerChannel\<close> and a second \<open>stop\<close>.
\<close>

theorem closed_runtime_rejects_guarded_calls_witness:
  "closed closedRuntime
   \<and> getChannel ''root'' closedRuntime = (Threw (Error ''Runtime is closed''), closedRuntime)
   \<and> msgType (runtimeMessage Operation (Envelope ''c1'' ''op'')) = Operation
   \<and> process exampleEnv (runtimeMessage Operation (Envelope ''c1'' ''op'')) False NoContext closedRuntime
       = (Threw (Error ''Runtime is closed''), closedRuntime)
   \<and> \<not> isLocal closedRuntime
   \<and> registerChannel exampleEnv (exampleChannel ''c1'') closedRuntime
       = (Threw (Error ''Runtime is closed''), closedRuntime)
   \<and> stop closedRuntime = (Threw (Error ''Runtime is closed''), closedRuntime)"
proof -
  have h: "closed closedRuntime"
    by (simp add: closedRuntime_def stop_def verifyNotClosed_def newComponentRuntime_def Let_def)
  have l: "\<not> isLocal closedRuntime"
    by (simp add: closedRuntime_def stop_def verifyNotClosed_def newComponentRuntime_def Let_def)
  have t: "msgType (runtimeMessage Operation (Envelope ''c1'' ''op'')) = Operation"
    by (simp add: runtimeMessage_def)
  show ?thesis
    using h l closed_runtime_rejects_guarded_calls [OF h, of "''root''" exampleEnv "''cell''" Connected "''me''"
        "''tag''" "''tag''" "''blob''" Operation "OtherContents []" "''sig''" "''x''" "exampleChannel ''c1''"
        "runtimeMessage Operation (Envelope ''c1'' ''op'')" False NoContext "''file''" "''/root''"
        "''handler''" "''sig''" closedRuntime]
    by (simp add: t closedError_def)
qed

text \<open>
  The claim as it is written fails on \<open>request\<close> and on \<open>close\<close>: on the closed runtime
  \<open>request\<close> answers with its 404 response and \<open>close\<close> returns after it has called the
  close function; neither is rejected.
\<close>

theorem closed_runtime_answers_request:
  "closed closedRuntime
   \<and> request exampleEnv ''/root'' closedRuntime
       = (Returned (Resolved \<lparr> status = 404, mimeType = ''text/plain'',
                                response_value = ''/root not found'' \<rparr>), closedRuntime)
   \<and> close closedRuntime = (Returned (), emit CloseFn closedRuntime)"
  by (simp add: closedRuntime_def stop_def verifyNotClosed_def newComponentRuntime_def Let_def
      request_def has_def close_def)

text \<open>
  Claim C8. A snapshot whose declared format version differs from the version of the
  registered extension does not make \<open>loadChannel\<close> fail: whether \<open>loadChannel\<close> returns
  or throws never depends on the declared version; the mismatch is logged through \<open>debug\<close>
  and the extension loads the channel as it would otherwise; with the same version, or
  with no declared version, nothing is logged.
\<close>

theorem loadChannel_version_mismatch_only_logs:
  "fst (loadChannel env i ty v minSeq services originBranch rt)
     = fst (loadChannel env i ty None minSeq services originBranch rt)
   \<and> (registry env ty = Some ext \<and> ext_load ext i minSeq services originBranch = Returned ch \<longrightarrow>
        loadChannel env i ty v minSeq services originBranch rt =
          (Returned \<lparr> cs_object = ch, cs_storage = Some (objectStorage services),
                      cs_connection = Some (deltaConnection services),
                      cs_baseId = services_baseId services \<rparr>,
           case v of
             None \<Rightarrow> rt
           | Some declared \<Rightarrow>
               if declared \<noteq> ext_snapshotFormatVersion ext
               then emit (Debug (versionMismatchMessage ty declared (ext_snapshotFormatVersion ext))) rt
               else rt))"
  by (cases v) (simp_all add: loadChannel_def Let_def split: option.splits outcome.splits)

text \<open>
  The cell extension has version \<open>0.1\<close>: a snapshot that declares \<open>0.0\<close> loads with one
  line logged, a snapshot that declares \<open>0.1\<close> and one that declares nothing load with
  none.
\<close>

theorem loadChannel_version_mismatch_only_logs_witness:
  "registry exampleEnv ''cell'' = Some exampleExtension
   \<and> ext_load exampleExtension ''c1'' 0 (getObjectServices ''c1'' None) ''main'' = Returned (exampleChannel ''c1'')
   \<and> fst (loadChannel exampleEnv ''c1'' ''cell'' (Some ''0.0'') 0 (getObjectServices ''c1'' None) ''main''
            (newComponentRuntime ''doc'' True)) = Returned connectedChannelState
   \<and> log (snd (loadChannel exampleEnv ''c1'' ''cell'' (Some ''0.0'') 0 (getObjectServices ''c1'' None) ''main''
            (newComponentRuntime ''doc'' True)))
       = [Debug (versionMismatchMessage ''cell'' ''0.0'' ''0.1'')]
   \<and> loadChannel exampleEnv ''c1'' ''cell'' (Some ''0.1'') 0 (getObjectServices ''c1'' None) ''main''
         (newComponentRuntime ''doc'' True) = (Returned connectedChannelState, newComponentRuntime ''doc'' True)
   \<and> loadChannel exampleEnv ''c1'' ''cell'' None 0 (getObjectServices ''c1'' None) ''main''
         (newComponentRuntime ''doc'' True) = (Returned connectedChannelState, newComponentRuntime ''doc'' True)"
proof -
  have h1: "registry exampleEnv ''cell'' = Some exampleExtension"
    by (simp add: exampleEnv_def)
  have h2: "ext_load exampleExtension ''c1'' 0 (getObjectServices ''c1'' None) ''main'' = Returned (exampleChannel ''c1'')"
    by (simp add: exampleExtension_def)
  have v: "ext_snapshotFormatVersion exampleExtension = ''0.1''"
    by (simp add: exampleExtension_def)
  have l: "log (newComponentRuntime ''doc'' True) = []"
    by (simp add: newComponentRuntime_def)
  note inst = loadChannel_version_mismatch_only_logs [of exampleEnv "''c1''" "''cell''" _ 0
      "getObjectServices ''c1'' None" "''main''" "newComponentRuntime ''doc'' True" exampleExtension
      "exampleChannel ''c1''"]
  show ?thesis
    using h1 h2 inst [of "Some ''0.0''"] inst [of "Some ''0.1''"] inst [of None]
    by (simp add: v l emit_def getObjectServices_def connectedChannelState_def)
qed

section \<open>Snapshot: round trip and header prefix\<close>



text \<open>The header and the body are the two parts of the descriptor list, in order.\<close>

lemma header_body_split: "headerSpecs n ds @ bodySpecs n ds = ds"
  by (induction ds arbitrary: n) simp_all


lemma bodySpecs_none: "specsLength ds \<le> n \<Longrightarrow> bodySpecs n ds = []"
proof (induction ds arbitrary: n)
  case Nil
  show ?case by simp
next
  case (Cons d ds)
  then show ?case by (simp add: specsLength_def)
qed

lemma headerSpecs_all: "specsLength ds \<le> n \<Longrightarrow> headerSpecs n ds = ds"
proof (induction ds arbitrary: n)
  case Nil
  show ?case by simp
next
  case (Cons d ds)
  then show ?case by (simp add: specsLength_def)
qed





text \<open>
  Runs of one character, as the snapshot test inserts them, have a boundary at every
  position up to their total length.
\<close>

lemma unit_runs_boundary:
  "list_all (\<lambda>d. contentLength (spec_content d) \<le> 1) ds \<Longrightarrow> n \<le> specsLength ds \<Longrightarrow> boundaryAt n ds"
proof (induction ds arbitrary: n)
  case Nil
  then show ?case by (simp add: specsLength_def)
next
  case (Cons d ds)
  show ?case
  proof (cases "n = 0")
    case True
    then show ?thesis by simp
  next
    case False
    have l: "contentLength (spec_content d) \<le> n" using Cons.prems(1) False by simp
    have "n - contentLength (spec_content d) \<le> specsLength ds"
      using Cons.prems(2) by (simp add: specsLength_def)
    then have "boundaryAt (n - contentLength (spec_content d)) ds"
      using Cons.prems(1) Cons.IH by simp
    then show ?thesis using l by simp
  qed
qed

text \<open>What a rebuilt tree shows is what its descriptors hold.\<close>

lemma rebuilt_text: "getText (reloadFromSegments m (map specToSegment ds)) = specsText ds"
  by (induction ds) (simp_all add: getText_def reloadFromSegments_def specToSegment_def isRemoved_def specsText_def)

lemma rebuilt_items: "linearize (reloadFromSegments m (map specToSegment ds)) = specsItems ds"
  by (induction ds) (simp_all add: linearize_def reloadFromSegments_def specToSegment_def isRemoved_def specsItems_def)

lemma rebuilt_length: "getLength (reloadFromSegments m (map specToSegment ds)) = specsLength ds"
  by (induction ds) (simp_all add: getLength_def reloadFromSegments_def specToSegment_def isRemoved_def specsLength_def)

lemma load_segments:
  "load (h, bs) = reloadFromSegments (chunk_minSeq h)
       (map specToSegment (chunk_segmentTexts h @ concat (map chunk_segmentTexts bs)))"
proof -
  have "fold (\<lambda>body T. insertSegmentsAtEnd (map specToSegment (chunk_segmentTexts body)) T) bs T0
        = T0\<lparr> mt_segments := mt_segments T0 @ map specToSegment (concat (map chunk_segmentTexts bs)) \<rparr>" for T0
    by (induction bs arbitrary: T0) (simp_all add: insertSegmentsAtEnd_def)
  then show ?thesis
    by (simp add: load_def loadHeader_def reloadFromSegments_def)
qed

text \<open>The whole snapshot read back holds the serialized content.\<close>

lemma extract_all_specs:
  "chunk_segmentTexts (fst (extractSync cap T)) @ concat (map chunk_segmentTexts (snd (extractSync cap T)))
     = snapshotSpecs T"
proof (cases "specsLength (snapshotSpecs T) > cap")
  case True
  then show ?thesis
    using header_body_split [of cap "snapshotSpecs T"]
    by (simp add: extractSync_def snapshotSpecs_def Let_def)
next
  case False
  then show ?thesis
    using headerSpecs_all [of "snapshotSpecs T" cap]
    by (simp add: extractSync_def snapshotSpecs_def Let_def)
qed

lemma load_rebuilds:
  "load (extractSync cap T) = reloadFromSegments (mt_minSeq T) (map specToSegment (snapshotSpecs T))"
proof -
  have "load (fst (extractSync cap T), snd (extractSync cap T))
        = reloadFromSegments (chunk_minSeq (fst (extractSync cap T)))
            (map specToSegment (chunk_segmentTexts (fst (extractSync cap T))
                                @ concat (map chunk_segmentTexts (snd (extractSync cap T)))))"
    by (rule load_segments)
  moreover have "chunk_minSeq (fst (extractSync cap T)) = mt_minSeq T"
    by (simp add: extractSync_def Let_def)
  ultimately show ?thesis
    by (simp only: extract_all_specs prod.collapse)
qed

lemma load_items: "linearize (load (extractSync cap T)) = specsItems (snapshotSpecs T)"
  unfolding load_rebuilds by (rule rebuilt_items)

lemma load_text: "getText (load (extractSync cap T)) = specsText (snapshotSpecs T)"
  unfolding load_rebuilds by (rule rebuilt_text)

lemma load_length: "getLength (load (extractSync cap T)) = specsLength (snapshotSpecs T)"
  unfolding load_rebuilds by (rule rebuilt_length)


lemma settled_filter:
  "settledAtMinSeq T \<Longrightarrow> filter (visibleAt (mt_minSeq T)) (mt_segments T) = filter (\<lambda>s. \<not> isRemoved s) (mt_segments T)"
  by (rule filter_cong) (auto simp: settledAtMinSeq_def list_all_iff)

lemma settled_items: "settledAtMinSeq T \<Longrightarrow> specsItems (snapshotSpecs T) = linearize T"
  by (simp add: settled_filter snapshotSpecs_def specsItems_def linearize_def toSpec_def comp_def)

lemma settled_text: "settledAtMinSeq T \<Longrightarrow> specsText (snapshotSpecs T) = getText T"
  by (simp add: settled_filter snapshotSpecs_def specsText_def getText_def toSpec_def comp_def)

lemma settled_length: "settledAtMinSeq T \<Longrightarrow> specsLength (snapshotSpecs T) = getLength T"
  by (simp add: settled_filter snapshotSpecs_def specsLength_def getLength_def toSpec_def comp_def)

text \<open>
  Claim C2, as the model has it. For every tree that is settled at its minimum sequence
  number (what is visible as of that number is what is visible now), loading the snapshot
  extracted from it yields a tree with the same \<open>getLength()\<close>, the same text and the same
  linearized content with properties, wherever the chunks divide the segments.
\<close>

theorem snapshot_round_trip_settled:
  "settledAtMinSeq T \<Longrightarrow>
     getLength (load (extractSync sizeOfFirstChunk T)) = getLength T
   \<and> getText (load (extractSync sizeOfFirstChunk T)) = getText T
   \<and> linearize (load (extractSync sizeOfFirstChunk T)) = linearize T"
  by (simp add: load_length load_text load_items settled_length settled_text settled_items)

text \<open>
  A settled tree with a marker and a removed run, and a capacity of three that falls
  inside the run \<open>cde\<close>: the tree read back has length 5 and the text \<open>abcde\<close>.
\<close>

theorem snapshot_round_trip_settled_witness:
  "settledAtMinSeq settledTree
   \<and> getLength settledTree = 5
   \<and> getText settledTree = ''abcde''
   \<and> getLength (load (extractSync 3 settledTree)) = 5
   \<and> getText (load (extractSync 3 settledTree)) = ''abcde''
   \<and> linearize (load (extractSync 3 settledTree)) = linearize settledTree"
proof -
  have h: "settledAtMinSeq settledTree"
    by (simp add: settledAtMinSeq_def settledTree_def textSeg_def markerSeg_def visibleAt_def
        insertedBy_def removedBy_def isRemoved_def)
  have l: "getLength settledTree = 5"
    by (simp add: getLength_def settledTree_def textSeg_def markerSeg_def isRemoved_def contentLength_def)
  have t: "getText settledTree = ''abcde''"
    by (simp add: getText_def settledTree_def textSeg_def markerSeg_def isRemoved_def contentText_def)
  show ?thesis
    using h l t snapshot_round_trip_settled [OF h, of 3] by simp
qed

text \<open>
  The claim as it is written, for every tree, fails on a tree whose only segment was
  inserted above the minimum sequence number: the tree has length 1, the snapshot holds
  nothing, and the tree read back has length 0.
\<close>

theorem snapshot_round_trip_loses_late_insert:
  "getLength lateInsertTree = 1
   \<and> getLength (load (extractSync 10 lateInsertTree)) = 0"
  by (simp add: getLength_def lateInsertTree_def textSeg_def isRemoved_def contentLength_def
      load_def loadHeader_def extractSync_def reloadFromSegments_def visibleAt_def insertedBy_def
      specsLength_def Let_def)




end
